theory Spec2Isabelle
  imports Main "HOL-Library.Sublist"
begin

section \<open>Calendar days\<close>

text \<open>
  The backend stores a completion's day as a \<^verbatim>\<open>YYYY-MM-DD\<close> string cut from
  \<^verbatim>\<open>toISOString()\<close> and steps through days with \<^verbatim>\<open>setDate(getDate() - 1)\<close>.
  A day is modelled as its number of days since 1970-01-01 (UTC): the ISO strings of
  valid dates are in order-preserving bijection with these numbers, a step to the
  previous day is \<open>d - 1\<close>, and 1970-01-01 was a Thursday (\<^verbatim>\<open>getDay() = 4\<close>).
  The server's clock is taken to run in UTC, so that the local day used by
  \<^verbatim>\<open>getDay\<close> and the day of the ISO string agree.
\<close>

type_synonym day = int

definition dayNames :: "string list" where
  "dayNames = [''sunday'', ''monday'', ''tuesday'', ''wednesday'', ''thursday'',
               ''friday'', ''saturday'']"

definition getDay :: "day \<Rightarrow> nat" where
  "getDay d = nat ((d + 4) mod 7)"

section \<open>Documents\<close>

type_synonym oid = nat

datatype frequency = Daily | Weekly | Custom

text \<open>
  \<^verbatim>\<open>models/Habit.js\<close>: the fields of the habit schema that the engine reads or
  writes. \<open>customDays\<close> is \<^verbatim>\<open>customFrequency.days\<close>.
\<close>

record habit =
  hid :: oid
  user :: oid
  title :: string
  category :: string
  frequency :: frequency
  customDays :: "string list"
  targetCount :: int
  currentStreak :: int
  longestStreak :: int
  totalCompletions :: int
  isActive :: bool
  isArchived :: bool

datatype mood = Happy | Neutral | Sad | Anxious

text \<open>
  \<^verbatim>\<open>models/HabitCompletion.js\<close>: one ledger row. \<open>c_habit\<close>, \<open>c_user\<close> and
  \<open>c_targetCount\<close> are the row's \<^verbatim>\<open>habit\<close>, \<^verbatim>\<open>user\<close> and \<^verbatim>\<open>targetCount\<close>
  fields, \<open>c_notes\<close> is \<^verbatim>\<open>notes\<close>. An absent optional field (\<^verbatim>\<open>undefined\<close>) is \<open>None\<close>.
\<close>

record completion =
  c_habit :: oid
  c_user :: oid
  completionDate :: day
  count :: int
  c_targetCount :: int
  c_notes :: "string option"
  moodAtTime :: "mood option"
  effortLevel :: "int option"
  satisfactionLevel :: "int option"
  streakAtCompletion :: int

section \<open>The due-day predicate\<close>

text \<open>\<^verbatim>\<open>habitSchema.methods.isDueToday\<close> (Habit.js, lines 187-204).\<close>

definition isDueToday :: "habit \<Rightarrow> day \<Rightarrow> bool" where
  "isDueToday h date =
     (if \<not> isActive h then False
      else
        let today = getDay date;
            todayName = dayNames ! today
        in (case frequency h of
              Daily \<Rightarrow> True
            | Weekly \<Rightarrow> True
            | Custom \<Rightarrow> todayName \<in> set (customDays h)))"

text \<open>
  \<^verbatim>\<open>isHabitDueToday\<close> (frontend \<^verbatim>\<open>lib/api/habits.ts\<close>, lines 155-172). On the
  client \<^verbatim>\<open>customFrequency\<close> is optional; \<^verbatim>\<open>customFrequency?.days.includes(..) || false\<close>
  is \<open>False\<close> when it is absent.
\<close>

definition isHabitDueToday :: "bool \<Rightarrow> frequency \<Rightarrow> string list option \<Rightarrow> day \<Rightarrow> bool" where
  "isHabitDueToday active freq customFrequency date =
     (if \<not> active then False
      else
        let today = getDay date;
            todayName = dayNames ! today
        in (case freq of
              Daily \<Rightarrow> True
            | Weekly \<Rightarrow> True
            | Custom \<Rightarrow> (case customFrequency of
                          None \<Rightarrow> False
                        | Some days \<Rightarrow> todayName \<in> set days)))"

section \<open>The streak calculator\<close>

text \<open>
  \<^verbatim>\<open>HabitCompletion.find({habit, user}).sort({completionDate: -1})\<close>: the rows of one
  habit and user, most recent day first.
\<close>

definition find_sorted :: "completion list \<Rightarrow> oid \<Rightarrow> oid \<Rightarrow> completion list" where
  "find_sorted ledger h u =
     sort_key (\<lambda>c. - completionDate c) (filter (\<lambda>c. c_habit c = h \<and> c_user c = u) ledger)"

text \<open>
  The \<^verbatim>\<open>while (completionIndex < completions.length)\<close> loop shared by
  \<^verbatim>\<open>calculateStreak\<close> (Habit.js, lines 244-259) and \<^verbatim>\<open>calculateHabitStreak\<close>
  (HabitCompletion.js, lines 227-242). The loop has no bound of its own: on a list
  whose next entry lies after the day being checked, for a habit that is never due,
  it steps back through the days for ever. Not returning is the value \<open>None\<close>.
\<close>

partial_function (option) streak_loop ::
  "habit \<Rightarrow> day list \<Rightarrow> nat \<Rightarrow> day \<Rightarrow> int \<Rightarrow> int option" where
  "streak_loop h completions completionIndex checkDate streak =
     (if completionIndex < length completions then
        (if completions ! completionIndex = checkDate then
           streak_loop h completions (completionIndex + 1) (checkDate - 1)
             (if isDueToday h checkDate then streak + 1 else streak)
         else if isDueToday h checkDate then Some streak
         else streak_loop h completions completionIndex (checkDate - 1) streak)
      else Some streak)"

declare streak_loop.simps [code]

text \<open>
  \<^verbatim>\<open>habitSchema.methods.calculateStreak\<close> (Habit.js, lines 207-267): returns the streak
  and the habit document as the method leaves it. \<open>now\<close> is the server's current day.
  The two early returns set \<^verbatim>\<open>currentStreak\<close> only; the normal exit also raises
  \<^verbatim>\<open>longestStreak\<close>. \<open>startDate\<close> is \<open>None\<close> for the source's \<^verbatim>\<open>null\<close>.
\<close>

definition calculateStreak :: "day \<Rightarrow> completion list \<Rightarrow> habit \<Rightarrow> (int \<times> habit) option" where
  "calculateStreak now ledger h =
     (let completions = map completionDate (find_sorted ledger (hid h) (user h)) in
      if length completions = 0 then Some (0, h\<lparr>currentStreak := 0\<rparr>)
      else
        let today = now;
            yesterday = now - 1;
            startDate = (if completions ! 0 = today then Some today
                         else if completions ! 0 = yesterday then Some yesterday
                         else None)
        in (case startDate of
              None \<Rightarrow> Some (0, h\<lparr>currentStreak := 0\<rparr>)
            | Some start \<Rightarrow>
                (case streak_loop h completions 0 start 0 of
                   None \<Rightarrow> None
                 | Some streak \<Rightarrow>
                     Some (streak,
                       h\<lparr>currentStreak := streak,
                         longestStreak := (if streak > longestStreak h then streak
                                           else longestStreak h)\<rparr>))))"



section \<open>Gamification state of a user\<close>

text \<open>
  The user schema's \<^verbatim>\<open>gamification\<close> block with \<^verbatim>\<open>addPoints\<close> and \<^verbatim>\<open>addBadge\<close>
  (user model, lines 337-359). A badge is kept with its name and description; its
  icon glyph and \<^verbatim>\<open>earnedAt\<close> timestamp play no part in any decision.
\<close>

record badge =
  badge_name :: string
  badge_description :: string

record gamification =
  points :: int
  level :: int
  badges :: "badge list"

datatype role = Patient | Doctor | Admin

record user_doc =
  role :: role
  gamification :: gamification

definition addPoints :: "int \<Rightarrow> gamification \<Rightarrow> gamification \<times> bool" where
  "addPoints p g =
     (let g1 = g\<lparr>points := points g + p\<rparr>;
          newLevel = points g1 div 100 + 1
      in if newLevel > level g1 then (g1\<lparr>level := newLevel\<rparr>, True)
         else (g1, False))"

definition addBadge :: "badge \<Rightarrow> gamification \<Rightarrow> gamification \<times> bool" where
  "addBadge b g =
     (case find (\<lambda>x. badge_name x = badge_name b) (badges g) of
        None \<Rightarrow> (g\<lparr>badges := badges g @ [b]\<rparr>, True)
      | Some existingBadge \<Rightarrow> (g, False))"

text \<open>
  \<^verbatim>\<open>x >= 4\<close> on an optional number: \<^verbatim>\<open>undefined >= 4\<close> is false.
\<close>

definition at_least :: "int option \<Rightarrow> int \<Rightarrow> bool" where
  "at_least x n = (case x of None \<Rightarrow> False | Some v \<Rightarrow> v \<ge> n)"

text \<open>
  \<^verbatim>\<open>habitCompletionSchema.methods.awardPoints\<close> (HabitCompletion.js, lines 248-285).
  The result is \<open>None\<close> when the user is not found (the method returns nothing),
  otherwise the points awarded and the level-up flag.
\<close>

definition awardPoints ::
  "completion \<Rightarrow> (oid \<rightharpoonup> user_doc) \<Rightarrow> (oid \<rightharpoonup> user_doc) \<times> (int \<times> bool) option" where
  "awardPoints c users =
     (case users (c_user c) of
        None \<Rightarrow> (users, None)
      | Some u \<Rightarrow>
          let p0 = 10;
              p1 = (if at_least (effortLevel c) 4 then p0 + 5 else p0);
              p2 = (if at_least (satisfactionLevel c) 4 then p1 + 5 else p1);
              p3 = (if streakAtCompletion c \<ge> 7 then p2 + 10 else p2);
              p4 = (if streakAtCompletion c \<ge> 30 then p3 + 25 else p3);
              result = addPoints p4 (gamification u);
              g1 = fst result;
              g2 = (if streakAtCompletion c = 7 then
                      fst (addBadge \<lparr>badge_name = ''7-Day Streak'',
                             badge_description = ''Completed a habit for 7 consecutive days''\<rparr> g1)
                    else if streakAtCompletion c = 30 then
                      fst (addBadge \<lparr>badge_name = ''30-Day Streak'',
                             badge_description = ''Completed a habit for 30 consecutive days''\<rparr> g1)
                    else g1)
          in (users(c_user c \<mapsto> u\<lparr>gamification := g2\<rparr>), Some (p4, snd result)))"

section \<open>The store and the middleware\<close>

text \<open>
  The three collections. Habit documents are never removed (deleting a habit archives
  it), so the collection only grows.
\<close>

record store =
  habits :: "habit list"
  ledger :: "completion list"
  users :: "oid \<rightharpoonup> user_doc"

datatype error =
    Unauthorized
  | NotFound
  | AccessDenied
  | BadRequest
  | ValidationError
  | DuplicateKey

definition findById :: "habit list \<Rightarrow> oid \<Rightarrow> habit option" where
  "findById hs i = find (\<lambda>h. hid h = i) hs"

text \<open>\<^verbatim>\<open>habit.save()\<close>: the stored document with this \<^verbatim>\<open>_id\<close> is replaced.\<close>

definition save_habit :: "habit \<Rightarrow> habit list \<Rightarrow> habit list" where
  "save_habit h hs = map (\<lambda>x. if hid x = hid h then h else x) hs"

text \<open>
  \<^verbatim>\<open>authenticate\<close> followed by \<^verbatim>\<open>checkOwnership(Habit)\<close> (middleware/auth.js, lines
  112-137): the caller must exist, the habit must exist, and the caller must own it
  unless the caller is an admin.
\<close>

definition checkOwnership :: "store \<Rightarrow> oid \<Rightarrow> oid \<Rightarrow> error + habit" where
  "checkOwnership s uid i =
     (case users s uid of
        None \<Rightarrow> Inl Unauthorized
      | Some caller \<Rightarrow>
          (case findById (habits s) i of
             None \<Rightarrow> Inl NotFound
           | Some resource \<Rightarrow>
               if role caller = Admin then Inr resource
               else if user resource \<noteq> uid then Inl AccessDenied
               else Inr resource))"


section \<open>The completion ledger\<close>

text \<open>
  The body of \<^verbatim>\<open>POST /api/habits/:id/complete\<close>; every field is optional.
\<close>

record complete_body =
  b_count :: "int option"
  b_notes :: "string option"
  b_effortLevel :: "int option"
  b_satisfactionLevel :: "int option"
  b_moodAtTime :: "mood option"

text \<open>
  \<^verbatim>\<open>a || b\<close> on optional values: \<^verbatim>\<open>undefined\<close>, the empty string and \<open>0\<close> are
  falsy, so \<open>b\<close> is taken for them.
\<close>

definition or_string :: "string option \<Rightarrow> string option \<Rightarrow> string option" where
  "or_string a b = (case a of None \<Rightarrow> b | Some x \<Rightarrow> if x = [] then b else a)"

definition or_number :: "int option \<Rightarrow> int option \<Rightarrow> int option" where
  "or_number a b = (case a of None \<Rightarrow> b | Some x \<Rightarrow> if x = 0 then b else a)"

definition or_mood :: "mood option \<Rightarrow> mood option \<Rightarrow> mood option" where
  "or_mood a b = (case a of None \<Rightarrow> b | Some x \<Rightarrow> a)"

text \<open>
  The validators of the completion schema (HabitCompletion.js, lines 27-74):
  \<^verbatim>\<open>count\<close> has \<^verbatim>\<open>min: 1\<close>, \<^verbatim>\<open>notes\<close> has \<^verbatim>\<open>maxlength: 500\<close>, the two levels
  lie in 1..5. A new document is validated in full; saving a loaded document
  validates the paths whose value changed.
\<close>

definition notes_ok :: "string option \<Rightarrow> bool" where
  "notes_ok n = (case n of None \<Rightarrow> True | Some x \<Rightarrow> length x \<le> 500)"

definition level_ok :: "int option \<Rightarrow> bool" where
  "level_ok l = (case l of None \<Rightarrow> True | Some x \<Rightarrow> 1 \<le> x \<and> x \<le> 5)"

definition valid_new :: "completion \<Rightarrow> bool" where
  "valid_new c =
     (count c \<ge> 1 \<and> notes_ok (c_notes c) \<and> level_ok (effortLevel c)
      \<and> level_ok (satisfactionLevel c))"

definition valid_modified :: "completion \<Rightarrow> completion \<Rightarrow> bool" where
  "valid_modified old new =
     ((count new = count old \<or> count new \<ge> 1)
      \<and> (c_notes new = c_notes old \<or> notes_ok (c_notes new))
      \<and> (effortLevel new = effortLevel old \<or> level_ok (effortLevel new))
      \<and> (satisfactionLevel new = satisfactionLevel old \<or> level_ok (satisfactionLevel new)))"

text \<open>
  \<^verbatim>\<open>existingCompletion.save()\<close> replaces the stored row that \<^verbatim>\<open>findOne\<close> returned,
  the first one matching the query; \<^verbatim>\<open>findOneAndDelete\<close> removes it.
\<close>

fun replace_first :: "('a \<Rightarrow> bool) \<Rightarrow> 'a \<Rightarrow> 'a list \<Rightarrow> 'a list" where
  "replace_first P y [] = []"
| "replace_first P y (x # xs) = (if P x then y # xs else x # replace_first P y xs)"

fun delete_first :: "('a \<Rightarrow> bool) \<Rightarrow> 'a list \<Rightarrow> 'a list" where
  "delete_first P [] = []"
| "delete_first P (x # xs) = (if P x then xs else x # delete_first P xs)"

text \<open>The query \<^verbatim>\<open>{habit: habit._id, user: req.user._id, completionDate: today}\<close>.\<close>

definition todays_row :: "oid \<Rightarrow> oid \<Rightarrow> day \<Rightarrow> completion \<Rightarrow> bool" where
  "todays_row h u today c = (c_habit c = h \<and> c_user c = u \<and> completionDate c = today)"

text \<open>
  The unique index \<^verbatim>\<open>{habit: 1, completionDate: 1}\<close> (HabitCompletion.js, line 93):
  an insert of a row whose habit and day are already in the ledger is refused.
\<close>

definition index_conflict :: "completion list \<Rightarrow> completion \<Rightarrow> bool" where
  "index_conflict l c =
     ((c_habit c, completionDate c) \<in> set (map (\<lambda>x. (c_habit x, completionDate x)) l))"

record complete_response =
  res_completion :: completion
  res_habit :: habit
  res_streak :: "int option"
  res_pointsAwarded :: "int option"
  res_levelUp :: "bool option"

text \<open>
  The handler of \<^verbatim>\<open>POST /api/habits/:id/complete\<close> (routes, lines 710-785), after
  the middleware has put the habit into \<^verbatim>\<open>req.resource\<close>. \<open>now\<close> is the server's
  current day, \<open>uid\<close> is \<^verbatim>\<open>req.user._id\<close>. A new row gets its \<^verbatim>\<open>completionDate\<close>
  from the pre-save hook, the day of \<^verbatim>\<open>completedAt\<close>, which defaults to now.
  \<^verbatim>\<open>updateStatistics\<close> writes only the rate snapshot, which is not modelled, and
  saves the habit. The result is \<open>None\<close> when the streak loop does not return.
\<close>

definition completeHabit ::
  "day \<Rightarrow> oid \<Rightarrow> habit \<Rightarrow> complete_body \<Rightarrow> store
     \<Rightarrow> (error + complete_response \<times> store) option" where
  "completeHabit now uid habit body s =
     (let count_arg = (case b_count body of None \<Rightarrow> 1 | Some n \<Rightarrow> n);
          today = now
      in case find (todays_row (hid habit) uid today) (ledger s) of
           Some existingCompletion \<Rightarrow>
             let updated = existingCompletion
                   \<lparr>count := min count_arg (targetCount habit),
                    c_notes := or_string (b_notes body) (c_notes existingCompletion),
                    effortLevel := or_number (b_effortLevel body) (effortLevel existingCompletion),
                    satisfactionLevel :=
                      or_number (b_satisfactionLevel body) (satisfactionLevel existingCompletion),
                    moodAtTime := or_mood (b_moodAtTime body) (moodAtTime existingCompletion)\<rparr>
             in if \<not> valid_modified existingCompletion updated then Some (Inl ValidationError)
                else Some (Inr
                  (\<lparr>res_completion = updated, res_habit = habit, res_streak = None,
                    res_pointsAwarded = None, res_levelUp = None\<rparr>,
                   s\<lparr>ledger := replace_first (todays_row (hid habit) uid today) updated (ledger s)\<rparr>))
         | None \<Rightarrow>
             (case calculateStreak now (ledger s) habit of
                None \<Rightarrow> None
              | Some (currentStreak_before, habit1) \<Rightarrow>
                  let created =
                        \<lparr>c_habit = hid habit1, c_user = uid, completionDate = today,
                         count = min count_arg (targetCount habit1),
                         c_targetCount = targetCount habit1,
                         c_notes = b_notes body,
                         moodAtTime = b_moodAtTime body,
                         effortLevel = b_effortLevel body,
                         satisfactionLevel = b_satisfactionLevel body,
                         streakAtCompletion = currentStreak_before + 1\<rparr>
                  in if \<not> valid_new created then Some (Inl ValidationError)
                     else if index_conflict (ledger s) created then Some (Inl DuplicateKey)
                     else
                       let habit2 = habit1\<lparr>totalCompletions := totalCompletions habit1 + 1,
                                           currentStreak := currentStreak_before + 1\<rparr>;
                           habit3 = (if currentStreak habit2 > longestStreak habit2
                                     then habit2\<lparr>longestStreak := currentStreak habit2\<rparr>
                                     else habit2);
                           gamificationResult = awardPoints created (users s)
                       in Some (Inr
                         (\<lparr>res_completion = created, res_habit = habit3,
                           res_streak = Some (currentStreak habit3),
                           res_pointsAwarded =
                             Some (case snd gamificationResult of None \<Rightarrow> 0 | Some r \<Rightarrow> fst r),
                           res_levelUp =
                             Some (case snd gamificationResult of None \<Rightarrow> False | Some r \<Rightarrow> snd r)\<rparr>,
                          s\<lparr>habits := save_habit habit3 (habits s),
                            ledger := ledger s @ [created],
                            users := fst gamificationResult\<rparr>))))"

text \<open>
  The handler of \<^verbatim>\<open>DELETE /api/habits/:id/complete\<close> (routes, lines 790-819).
\<close>

definition undoCompletion ::
  "day \<Rightarrow> oid \<Rightarrow> habit \<Rightarrow> store \<Rightarrow> (error + habit \<times> store) option" where
  "undoCompletion now uid habit s =
     (let today = now
      in case find (todays_row (hid habit) uid today) (ledger s) of
           None \<Rightarrow> Some (Inl NotFound)
         | Some completion \<Rightarrow>
             let ledger1 = delete_first (todays_row (hid habit) uid today) (ledger s);
                 habit1 = habit\<lparr>totalCompletions := max 0 (totalCompletions habit - 1)\<rparr>
             in (case calculateStreak now ledger1 habit1 of
                   None \<Rightarrow> None
                 | Some (newStreak, habit2) \<Rightarrow>
                     Some (Inr (habit2,
                       s\<lparr>habits := save_habit habit2 (habits s), ledger := ledger1\<rparr>))))"


section \<open>The habit store\<close>

text \<open>
  The body of \<^verbatim>\<open>POST /api/habits\<close> and \<^verbatim>\<open>PUT /api/habits/:id\<close>, with the fields
  of the request that reach a modelled field of the habit. \<^verbatim>\<open>Habit.create\<close> is given
  the whole body, so a client may send the progress fields too.
\<close>

record habit_body =
  hb_title :: "string option"
  hb_category :: "string option"
  hb_frequency :: "frequency option"
  hb_customDays :: "string list option"
  hb_targetCount :: "int option"
  hb_currentStreak :: "int option"
  hb_longestStreak :: "int option"
  hb_totalCompletions :: "int option"
  hb_isActive :: "bool option"
  hb_isArchived :: "bool option"

definition categories :: "string list" where
  "categories = [''health'', ''fitness'', ''mindfulness'', ''productivity'', ''social'',
                 ''creativity'', ''learning'', ''self-care'', ''nutrition'', ''sleep'']"

text \<open>
  \<^verbatim>\<open>habitValidation\<close> (routes, lines 439-467): title of 1 to 100 characters, a known
  category, a frequency, and a target count of at least 1 when one is sent.
\<close>

definition habitValidation :: "habit_body \<Rightarrow> bool" where
  "habitValidation b =
     ((case hb_title b of None \<Rightarrow> False | Some t \<Rightarrow> 1 \<le> length t \<and> length t \<le> 100)
      \<and> (case hb_category b of None \<Rightarrow> False | Some c \<Rightarrow> c \<in> set categories)
      \<and> hb_frequency b \<noteq> None
      \<and> (case hb_targetCount b of None \<Rightarrow> True | Some n \<Rightarrow> n \<ge> 1))"

text \<open>
  The validators of the habit schema on the modelled fields (Habit.js, lines 58-97):
  the custom days are weekday names, the target count is at least 1 and the three
  progress fields are at least 0.
\<close>

definition habit_schema_ok :: "habit \<Rightarrow> bool" where
  "habit_schema_ok h =
     (list_all (\<lambda>d. d \<in> set dayNames) (customDays h) \<and> targetCount h \<ge> 1
      \<and> currentStreak h \<ge> 0 \<and> longestStreak h \<ge> 0 \<and> totalCompletions h \<ge> 0)"

definition or_default :: "'a option \<Rightarrow> 'a \<Rightarrow> 'a" where
  "or_default x d = (case x of None \<Rightarrow> d | Some v \<Rightarrow> v)"

text \<open>
  The handler of \<^verbatim>\<open>POST /api/habits\<close> (routes, lines 606-650). \<open>new_id\<close> is the
  \<^verbatim>\<open>_id\<close> the database driver generates; the caller is awarded 5 points, and the
  "Habit Creator" badge when that levels them up.
\<close>

definition createHabit ::
  "oid \<Rightarrow> oid \<Rightarrow> habit_body \<Rightarrow> store \<Rightarrow> error + habit \<times> store" where
  "createHabit new_id uid b s =
     (case users s uid of
        None \<Rightarrow> Inl Unauthorized
      | Some caller \<Rightarrow>
          if \<not> habitValidation b then Inl BadRequest
          else
            let h = \<lparr>hid = new_id, user = uid,
                     title = or_default (hb_title b) [],
                     category = or_default (hb_category b) ''health'',
                     frequency = or_default (hb_frequency b) Daily,
                     customDays = or_default (hb_customDays b) [],
                     targetCount = or_default (hb_targetCount b) 1,
                     currentStreak = or_default (hb_currentStreak b) 0,
                     longestStreak = or_default (hb_longestStreak b) 0,
                     totalCompletions = or_default (hb_totalCompletions b) 0,
                     isActive = or_default (hb_isActive b) True,
                     isArchived = or_default (hb_isArchived b) False\<rparr>
            in if \<not> habit_schema_ok h then Inl ValidationError
               else if findById (habits s) new_id \<noteq> None then Inl DuplicateKey
               else
                 let pointsResult = addPoints 5 (gamification caller);
                     g = (if snd pointsResult then
                            fst (addBadge \<lparr>badge_name = ''Habit Creator'',
                                   badge_description = ''Created your first habit''\<rparr>
                                   (fst pointsResult))
                          else fst pointsResult)
                 in Inr (h, s\<lparr>habits := habits s @ [h],
                              users := (users s)(uid \<mapsto> caller\<lparr>gamification := g\<rparr>)\<rparr>))"

text \<open>
  The handler of \<^verbatim>\<open>PUT /api/habits/:id\<close> (routes, lines 655-687): only the fields of
  \<^verbatim>\<open>allowedFields\<close> are copied from the body. \<^verbatim>\<open>habit.save()\<close> validates the
  paths whose value changed.
\<close>

definition habit_modified_ok :: "habit \<Rightarrow> habit \<Rightarrow> bool" where
  "habit_modified_ok old new =
     ((customDays new = customDays old \<or> list_all (\<lambda>d. d \<in> set dayNames) (customDays new))
      \<and> (targetCount new = targetCount old \<or> targetCount new \<ge> 1))"

definition updateHabit :: "habit \<Rightarrow> habit_body \<Rightarrow> store \<Rightarrow> error + habit \<times> store" where
  "updateHabit habit b s =
     (if \<not> habitValidation b then Inl BadRequest
      else
        let h = habit\<lparr>title := or_default (hb_title b) (title habit),
                       category := or_default (hb_category b) (category habit),
                       frequency := or_default (hb_frequency b) (frequency habit),
                       customDays := or_default (hb_customDays b) (customDays habit),
                       targetCount := or_default (hb_targetCount b) (targetCount habit),
                       isActive := or_default (hb_isActive b) (isActive habit)\<rparr>
        in if \<not> habit_modified_ok habit h then Inl ValidationError
           else Inr (h, s\<lparr>habits := save_habit h (habits s)\<rparr>))"

text \<open>
  The handler of \<^verbatim>\<open>DELETE /api/habits/:id\<close> (routes, lines 692-705): a soft delete.
\<close>

definition deleteHabit :: "habit \<Rightarrow> store \<Rightarrow> habit \<times> store" where
  "deleteHabit habit s =
     (let h = habit\<lparr>isActive := False, isArchived := True\<rparr>
      in (h, s\<lparr>habits := save_habit h (habits s)\<rparr>))"

text \<open>
  The handler of \<^verbatim>\<open>GET /api/habits/:id\<close> (routes, lines 578-601): the streak is
  recomputed and the habit saved by \<^verbatim>\<open>updateStatistics\<close>.
\<close>

definition getHabit :: "day \<Rightarrow> habit \<Rightarrow> store \<Rightarrow> (habit \<times> store) option" where
  "getHabit now habit s =
     (case calculateStreak now (ledger s) habit of
        None \<Rightarrow> None
      | Some (streak, h) \<Rightarrow> Some (h, s\<lparr>habits := save_habit h (habits s)\<rparr>))"


section \<open>The calendar aggregation\<close>

text \<open>
  \<^verbatim>\<open>Math.round((a / b) * 100)\<close> for counts \<open>a\<close> and \<open>b > 0\<close>, as exact rounding to
  the nearest integer with halves rounded up.
\<close>

definition round_percent :: "nat \<Rightarrow> nat \<Rightarrow> int" where
  "round_percent a b = (200 * int a + int b) div (2 * int b)"

text \<open>
  \<^verbatim>\<open>getCompletionsInRange(userId, startDate, endDate)\<close> (HabitCompletion.js, lines
  117-133).
\<close>

definition getCompletionsInRange :: "completion list \<Rightarrow> oid \<Rightarrow> day \<Rightarrow> day \<Rightarrow> completion list" where
  "getCompletionsInRange l userId startDate endDate =
     sort_key (\<lambda>c. - completionDate c)
       (filter (\<lambda>c. c_user c = userId \<and> startDate \<le> completionDate c
                  \<and> completionDate c \<le> endDate) l)"

record calendar_entry =
  totalHabits :: nat
  completedHabits :: nat
  completionRate :: int
  habit_flags :: "(oid \<times> bool) list"

text \<open>
  The handler of \<^verbatim>\<open>GET /api/habits/calendar/range\<close> (routes, lines 908-972): one
  entry per day from \<open>startDate\<close> to \<open>endDate\<close>, both included.
\<close>

definition getCalendarData ::
  "oid \<Rightarrow> day option \<Rightarrow> day option \<Rightarrow> store \<Rightarrow> error + (day \<times> calendar_entry) list" where
  "getCalendarData uid startDate endDate s =
     (case (startDate, endDate) of
        (Some start, Some end_day) \<Rightarrow>
          let hs = filter (\<lambda>h. user h = uid \<and> isActive h) (habits s);
              completions = getCompletionsInRange (ledger s) uid start end_day
          in Inr (map (\<lambda>date.
                    let habitsForDate = filter (\<lambda>h. isDueToday h date) hs;
                        completionsForDate = filter (\<lambda>c. completionDate c = date) completions
                    in (date,
                        \<lparr>totalHabits = length habitsForDate,
                         completedHabits = length completionsForDate,
                         completionRate =
                           (if length habitsForDate > 0
                            then round_percent (length completionsForDate) (length habitsForDate)
                            else 0),
                         habit_flags =
                           map (\<lambda>h. (hid h, \<exists>c \<in> set completionsForDate. c_habit c = hid h))
                             habitsForDate\<rparr>))
                  [start..end_day])
      | _ \<Rightarrow> Inl BadRequest)"

section \<open>The routes\<close>

text \<open>
  A request of an authenticated caller to one of the habit routes, and the store it
  leaves behind. A request that is answered with an error leaves the store as it
  was; \<open>None\<close> is a request that never returns.
\<close>

datatype request =
    Create oid habit_body
  | Update oid habit_body
  | Delete oid
  | Complete oid complete_body
  | Undo oid
  | Get oid

definition post_complete ::
  "day \<Rightarrow> oid \<Rightarrow> oid \<Rightarrow> complete_body \<Rightarrow> store \<Rightarrow> (error + complete_response \<times> store) option" where
  "post_complete now uid i body s =
     (case checkOwnership s uid i of
        Inl e \<Rightarrow> Some (Inl e)
      | Inr habit \<Rightarrow> completeHabit now uid habit body s)"

definition delete_complete ::
  "day \<Rightarrow> oid \<Rightarrow> oid \<Rightarrow> store \<Rightarrow> (error + habit \<times> store) option" where
  "delete_complete now uid i s =
     (case checkOwnership s uid i of
        Inl e \<Rightarrow> Some (Inl e)
      | Inr habit \<Rightarrow> undoCompletion now uid habit s)"

definition handle :: "day \<Rightarrow> oid \<Rightarrow> request \<Rightarrow> store \<Rightarrow> store option" where
  "handle now uid req s =
     (case req of
        Create new_id b \<Rightarrow>
          (case createHabit new_id uid b s of Inl e \<Rightarrow> Some s | Inr (h, s') \<Rightarrow> Some s')
      | Update i b \<Rightarrow>
          (case checkOwnership s uid i of
             Inl e \<Rightarrow> Some s
           | Inr habit \<Rightarrow>
               (case updateHabit habit b s of Inl e \<Rightarrow> Some s | Inr (h, s') \<Rightarrow> Some s'))
      | Delete i \<Rightarrow>
          (case checkOwnership s uid i of
             Inl e \<Rightarrow> Some s
           | Inr habit \<Rightarrow> Some (snd (deleteHabit habit s)))
      | Complete i body \<Rightarrow>
          (case post_complete now uid i body s of
             None \<Rightarrow> None
           | Some (Inl e) \<Rightarrow> Some s
           | Some (Inr (r, s')) \<Rightarrow> Some s')
      | Undo i \<Rightarrow>
          (case delete_complete now uid i s of
             None \<Rightarrow> None
           | Some (Inl e) \<Rightarrow> Some s
           | Some (Inr (h, s')) \<Rightarrow> Some s')
      | Get i \<Rightarrow>
          (case checkOwnership s uid i of
             Inl e \<Rightarrow> Some s
           | Inr habit \<Rightarrow>
               (case getHabit now habit s of None \<Rightarrow> None | Some (h, s') \<Rightarrow> Some s')))"

text \<open>
  A sequence of requests, each with the server's day and the caller, handled one after
  the other.
\<close>

fun run_requests :: "(day \<times> oid \<times> request) list \<Rightarrow> store \<Rightarrow> store option" where
  "run_requests [] s = Some s"
| "run_requests ((now, uid, req) # rest) s =
     (case handle now uid req s of None \<Rightarrow> None | Some s' \<Rightarrow> run_requests rest s')"

section \<open>The offline queue of the client\<close>









section \<open>Example data\<close>

text \<open>
  Day 19723 is Monday 2024-01-01. The example habit is due on Mondays and Wednesdays
  and has rows on Monday, Tuesday and Wednesday of that week.
\<close>

definition example_habit :: habit where
  "example_habit =
     \<lparr>hid = 1, user = 7, title = ''Stretch'', category = ''fitness'', frequency = Custom,
      customDays = [''monday'', ''wednesday''], targetCount = 3, currentStreak = 0,
      longestStreak = 0, totalCompletions = 0, isActive = True, isArchived = False\<rparr>"

definition example_row :: "oid \<Rightarrow> day \<Rightarrow> completion" where
  "example_row h d =
     \<lparr>c_habit = h, c_user = 7, completionDate = d, count = 1, c_targetCount = 3,
      c_notes = None, moodAtTime = None, effortLevel = None, satisfactionLevel = None,
      streakAtCompletion = 1\<rparr>"

definition example_ledger :: "completion list" where
  "example_ledger = [example_row 1 19723, example_row 1 19724, example_row 1 19725]"

text \<open>
  A store holding the example habit, its owner (user 7) and the example ledger, and a
  request body for a completion.
\<close>

definition example_user :: user_doc where
  "example_user = \<lparr>role = Patient, gamification = \<lparr>points = 95, level = 1, badges = []\<rparr>\<rparr>"

definition example_store :: store where
  "example_store = \<lparr>habits = [example_habit], ledger = example_ledger,
     users = [7 \<mapsto> example_user]\<rparr>"

definition example_body :: complete_body where
  "example_body = \<lparr>b_count = Some 5, b_notes = Some ''done'', b_effortLevel = Some 4,
     b_satisfactionLevel = None, b_moodAtTime = Some Happy\<rparr>"

text \<open>
  A daily habit of the same user with a row on each of the six days before day 19726,
  and a store whose only row, for the example habit on day 19725, has count 3.
\<close>

definition daily_habit :: habit where
  "daily_habit =
     \<lparr>hid = 2, user = 7, title = ''Walk'', category = ''health'', frequency = Daily,
      customDays = [], targetCount = 1, currentStreak = 6, longestStreak = 6,
      totalCompletions = 6, isActive = True, isArchived = False\<rparr>"

definition week_store :: store where
  "week_store = \<lparr>habits = [example_habit, daily_habit],
     ledger = map (example_row 2) [19720, 19721, 19722, 19723, 19724, 19725],
     users = [7 \<mapsto> example_user]\<rparr>"

definition counted_store :: store where
  "counted_store = \<lparr>habits = [example_habit],
     ledger = [(example_row 1 19725)\<lparr>count := 3\<rparr>],
     users = [7 \<mapsto> example_user]\<rparr>"

definition empty_body :: complete_body where
  "empty_body = \<lparr>b_count = None, b_notes = None, b_effortLevel = None,
     b_satisfactionLevel = None, b_moodAtTime = None\<rparr>"

text \<open>The daily habit after it has been archived.\<close>

definition archived_habit :: habit where
  "archived_habit = daily_habit\<lparr>isActive := False, isArchived := True\<rparr>"

text \<open>
  A store with both habits and the example ledger, whose rows all belong to the
  example habit.
\<close>

definition calendar_store :: store where
  "calendar_store = \<lparr>habits = [example_habit, daily_habit], ledger = example_ledger,
     users = [7 \<mapsto> example_user]\<rparr>"




lemmas eval_defs = post_complete_def checkOwnership_def findById_def completeHabit_def
  undoCompletion_def calculateStreak_def find_sorted_def streak_loop.simps isDueToday_def
  getDay_def dayNames_def todays_row_def valid_new_def valid_modified_def notes_ok_def
  level_ok_def index_conflict_def awardPoints_def addPoints_def addBadge_def at_least_def
  or_string_def or_number_def or_mood_def save_habit_def Let_def
  example_store_def example_habit_def example_ledger_def example_row_def example_user_def
  example_body_def daily_habit_def week_store_def counted_store_def empty_body_def
  archived_habit_def handle_def delete_complete_def run_requests.simps calendar_store_def

section \<open>The reference walk of the streak\<close>


lemma fold_min_le_start: "fold min cs (a::int) \<le> a"
proof (induction cs arbitrary: a)
  case Nil
  show ?case by simp
next
  case (Cons c cs)
  have "fold min cs (min c a) \<le> min c a" by (rule Cons.IH)
  then show ?case by simp
qed

lemma fold_min_start_irrelevant:
  "c \<in> set cs \<Longrightarrow> c \<le> a \<Longrightarrow> a \<le> b \<Longrightarrow> fold min cs (a::int) = fold min cs b"
proof (induction cs arbitrary: a b)
  case Nil
  then show ?case by simp
next
  case (Cons x xs)
  show ?case
  proof (cases "c = x")
    case True
    with Cons.prems have "min x a = x" "min x b = x" by simp_all
    then show ?thesis by simp
  next
    case False
    with Cons.prems have "c \<in> set xs" by simp
    moreover have "c \<le> min x a \<or> min x a = min x b" using Cons.prems by (auto simp: min_def)
    moreover have "min x a \<le> min x b" using Cons.prems by (auto simp: min_def)
    ultimately have "fold min xs (min x a) = fold min xs (min x b)"
      using Cons.IH [of "min x a" "min x b"] by auto
    then show ?thesis by simp
  qed
qed

text \<open>
  The walk of the specification (section 4.3), step by step and written from its words,
  not from the code. It takes the due-day predicate and the completion days sorted
  most recent first, and keeps a position in that list, the next completion not yet
  consumed. At each day: a day that is not due is skipped without consuming a
  completion; on a due day, when the completion at the position is on that day, the
  streak is incremented and the position advances to the next older completion,
  otherwise the walk stops. The walk also ends when the list is exhausted. A walk that
  never ends has the value \<open>None\<close>.
\<close>

partial_function (option) spec_walk_steps ::
  "(day \<Rightarrow> bool) \<Rightarrow> day list \<Rightarrow> nat \<Rightarrow> day \<Rightarrow> int \<Rightarrow> int option" where
  "spec_walk_steps isDue completions position d streak =
     (if position < length completions then
        (if \<not> isDue d then spec_walk_steps isDue completions position (d - 1) streak
         else if completions ! position = d then
           spec_walk_steps isDue completions (position + 1) (d - 1) (streak + 1)
         else Some streak)
      else Some streak)"

declare spec_walk_steps.simps [code]


text \<open>
  The walk as it is proved of the code below. It differs from the walk above in one
  point: a day that is not due is skipped together with a completion recorded on it,
  which is neither counted nor left in the way of older completions. The completions
  are therefore taken as the set of their days: a due day with a completion counts
  one, a due day without a completion ends the walk, and the completions are exhausted
  once none lies on the day reached or before it.
\<close>

function spec_walk :: "(day \<Rightarrow> bool) \<Rightarrow> day list \<Rightarrow> day \<Rightarrow> int" where
  "spec_walk isDue completions d =
     (if \<forall>c \<in> set completions. d < c then 0
      else if \<not> isDue d then spec_walk isDue completions (d - 1)
      else if d \<in> set completions then 1 + spec_walk isDue completions (d - 1)
      else 0)"
  by pat_completeness auto
termination
proof (relation "measure (\<lambda>(isDue, cs, d). nat (d + 1 - fold min cs (d + 1)))")
  show "wf (measure (\<lambda>(isDue, cs, d). nat (d + 1 - fold min cs (d + 1))))" by simp
next
  fix isDue :: "day \<Rightarrow> bool" and completions :: "day list" and d :: day
  assume "\<not> (\<forall>c\<in>set completions. d < c)"
  then obtain c where c: "c \<in> set completions" "c \<le> d" by force
  have "fold min completions d = fold min completions (d + 1)"
    using c by (intro fold_min_start_irrelevant [of c]) simp_all
  moreover have "fold min completions d \<le> d" by (rule fold_min_le_start)
  ultimately show "((isDue, completions, d - 1), (isDue, completions, d)) \<in>
      measure (\<lambda>(isDue, cs, d). nat (d + 1 - fold min cs (d + 1)))"
    by simp
  then show "((isDue, completions, d - 1), (isDue, completions, d)) \<in>
      measure (\<lambda>(isDue, cs, d). nat (d + 1 - fold min cs (d + 1)))" .
qed

declare spec_walk.simps [simp del]


section \<open>Properties of the due-day predicate\<close>

lemma getDay_range: "getDay d < 7"
  by (simp add: getDay_def nat_less_iff)

text \<open>
  C8, as the code has it. A habit that is not active is due on no day. An active
  habit is due on every day when its frequency is daily or weekly, and an active
  habit with a custom frequency is due exactly on the days whose weekday name is in
  its day set. The client's predicate agrees with the server's, and the weekday index
  always selects one of the seven names.
\<close>

theorem isDue_iff_active_and_scheduled:
  "isDueToday h d =
     (isActive h \<and> (frequency h = Daily \<or> frequency h = Weekly
        \<or> (frequency h = Custom \<and> dayNames ! getDay d \<in> set (customDays h))))
   \<and> isHabitDueToday (isActive h) (frequency h) (Some (customDays h)) d = isDueToday h d
   \<and> getDay d < length dayNames"
proof -
  have "isDueToday h d =
     (isActive h \<and> (frequency h = Daily \<or> frequency h = Weekly
        \<or> (frequency h = Custom \<and> dayNames ! getDay d \<in> set (customDays h))))"
    by (cases "frequency h") (simp_all add: isDueToday_def)
  moreover have "isHabitDueToday (isActive h) (frequency h) (Some (customDays h)) d
      = isDueToday h d"
    by (cases "frequency h") (simp_all add: isDueToday_def isHabitDueToday_def)
  moreover have "getDay d < length dayNames"
    using getDay_range [of d] by (simp add: dayNames_def)
  ultimately show ?thesis by (intro conjI)
qed

text \<open>
  The claim as stated, that every daily or weekly habit is due on every day, fails for
  the archived daily habit.
\<close>

theorem isDue_daily_not_always_counterexample:
  "frequency archived_habit = Daily \<and> \<not> isDueToday archived_habit 19726
   \<and> \<not> isHabitDueToday (isActive archived_habit) (frequency archived_habit) None 19726"
  by (simp add: archived_habit_def daily_habit_def isDueToday_def isHabitDueToday_def)

section \<open>Properties of the streak calculator\<close>


lemma spec_walk_ignores_later:
  "d < c \<Longrightarrow> spec_walk isDue (c # cs) d = spec_walk isDue cs d"
proof (induction isDue cs d rule: spec_walk.induct)
  case (1 isDue completions d)
  have lt: "d - 1 < c" using "1.prems" by simp
  have a: "(\<forall>x \<in> set (c # completions). d < x) = (\<forall>x \<in> set completions. d < x)"
    using "1.prems" by simp
  have b: "(d \<in> set (c # completions)) = (d \<in> set completions)"
    using "1.prems" by auto
  have unfold: "spec_walk isDue (c # completions) d =
     (if \<forall>x \<in> set completions. d < x then 0
      else if \<not> isDue d then spec_walk isDue (c # completions) (d - 1)
      else if d \<in> set completions then 1 + spec_walk isDue (c # completions) (d - 1)
      else 0)"
    by (subst spec_walk.simps) (simp only: a b)
  show ?case
  proof (cases "\<forall>x \<in> set completions. d < x")
    case True
    then show ?thesis by (simp add: unfold spec_walk.simps [of isDue completions d])
  next
    case ex: False
    show ?thesis
    proof (cases "isDue d")
      case False
      with ex "1.IH"(1) [OF ex _ lt] show ?thesis
        by (auto simp: unfold spec_walk.simps [of isDue completions d])
    next
      case due: True
      show ?thesis
      proof (cases "d \<in> set completions")
        case True
        with ex due "1.IH"(2) [OF ex _ True lt] show ?thesis
          by (auto simp: unfold spec_walk.simps [of isDue completions d])
      next
        case False
        with ex due show ?thesis
          by (auto simp: unfold spec_walk.simps [of isDue completions d])
      qed
    qed
  qed
qed


text \<open>
  Completions on days that are not due play no part in this walk: leaving them out of
  the history does not change its value.
\<close>

lemma spec_walk_exhausted: "\<forall>c \<in> set cs. d < c \<Longrightarrow> spec_walk isDue cs d = 0"
  by (subst spec_walk.simps) simp

lemma spec_walk_only_due_days:
  "spec_walk isDue cs d = spec_walk isDue (filter isDue cs) d"
proof (induction isDue cs d rule: spec_walk.induct)
  case (1 isDue completions d)
  let ?due = "filter isDue completions"
  show ?case
  proof (cases "\<forall>c \<in> set completions. d < c")
    case True
    then have "\<forall>c \<in> set ?due. d < c" by simp
    with True show ?thesis by (simp add: spec_walk_exhausted)
  next
    case more: False
    show ?thesis
    proof (cases "isDue d")
      case False
      have "spec_walk isDue completions d = spec_walk isDue completions (d - 1)"
        using more False by (subst spec_walk.simps) auto
      also have "\<dots> = spec_walk isDue ?due (d - 1)"
        using more False by (rule "1.IH"(1))
      also have "\<dots> = spec_walk isDue ?due d"
      proof (cases "\<forall>c \<in> set ?due. d < c")
        case True
        then have "\<forall>c \<in> set ?due. d - 1 < c" by auto
        with True show ?thesis by (simp add: spec_walk_exhausted)
      next
        case False
        with \<open>\<not> isDue d\<close> show ?thesis
          by (subst (2) spec_walk.simps) auto
      qed
      finally show ?thesis .
    next
      case due: True
      show ?thesis
      proof (cases "d \<in> set completions")
        case True
        then have in_due: "d \<in> set ?due" using due by simp
        then have more': "\<not> (\<forall>c \<in> set ?due. d < c)" by auto
        have "spec_walk isDue completions d = 1 + spec_walk isDue completions (d - 1)"
          using more due True by (subst spec_walk.simps) auto
        also have "\<dots> = 1 + spec_walk isDue ?due (d - 1)"
          using "1.IH"(2) [OF more _ True] due by simp
        also have "\<dots> = spec_walk isDue ?due d"
          using more' due in_due by (subst (2) spec_walk.simps) auto
        finally show ?thesis .
      next
        case False
        then have notin: "d \<notin> set ?due" by simp
        have "spec_walk isDue completions d = 0"
          using more due False by (subst spec_walk.simps) auto
        moreover have "spec_walk isDue ?due d = 0"
          using due notin by (subst spec_walk.simps) auto
        ultimately show ?thesis by simp
      qed
    qed
  qed
qed





lemma spec_walk_Nil: "spec_walk isDue [] d = 0"
  by (simp add: spec_walk.simps)


text \<open>
  On a history whose completions all lie on due days the two walks agree: the step by
  step walk of the specification returns, with the same value.
\<close>

lemma spec_walk_steps_done:
  "length cs \<le> i \<Longrightarrow> spec_walk_steps isDue cs i d s = Some s"
  by (subst spec_walk_steps.simps) simp

lemma spec_walk_steps_agree:
  assumes desc: "sorted_wrt (>) cs" and due: "\<forall>c \<in> set cs. isDue c"
  shows "i \<le> length cs \<Longrightarrow> \<forall>c \<in> set (drop i cs). c \<le> d \<Longrightarrow>
    spec_walk_steps isDue cs i d s = Some (s + spec_walk isDue (drop i cs) d)"
proof (induction n \<equiv> "length cs - i" arbitrary: i d s)
  case 0
  then have "length cs \<le> i" by simp
  then show ?case by (simp add: spec_walk_steps_done spec_walk_Nil)
next
  case (Suc n)
  then have i: "i < length cs" by simp
  define c where "c = cs ! i"
  define rest where "rest = drop (Suc i) cs"
  have split: "drop i cs = c # rest"
    using i by (simp add: c_def rest_def Cons_nth_drop_Suc)
  have cdue: "isDue c" using due i by (simp add: c_def)
  have "sorted_wrt (>) (drop i cs)" using desc by (rule sorted_wrt_drop)
  then have older: "\<forall>x \<in> set rest. x < c" by (auto simp: split)
  have outer: "\<And>d' s'. \<forall>x \<in> set rest. x \<le> d' \<Longrightarrow>
      spec_walk_steps isDue cs (Suc i) d' s' = Some (s' + spec_walk isDue rest d')"
    using Suc.hyps(1) [of "Suc i"] Suc.hyps(2) i unfolding rest_def by simp
  have inner: "c \<le> d' \<Longrightarrow>
      spec_walk_steps isDue cs i d' s' = Some (s' + spec_walk isDue (c # rest) d')" for d' s'
  proof (induction k \<equiv> "nat (d' - c)" arbitrary: d' s')
    case 0
    then have eq: "d' = c" by simp
    have below: "\<forall>x \<in> set rest. x \<le> d' - 1" using older eq by auto
    have walk: "spec_walk isDue (c # rest) d' = 1 + spec_walk isDue rest (d' - 1)"
      using cdue by (subst spec_walk.simps) (simp add: eq spec_walk_ignores_later)
    have "spec_walk_steps isDue cs i d' s' = spec_walk_steps isDue cs (Suc i) (d' - 1) (s' + 1)"
      using i eq cdue by (subst spec_walk_steps.simps) (simp add: c_def)
    also have "\<dots> = Some ((s' + 1) + spec_walk isDue rest (d' - 1))"
      by (rule outer [OF below])
    also have "\<dots> = Some (s' + spec_walk isDue (c # rest) d')"
      unfolding walk by simp
    finally show ?case .
  next
    case (Suc k)
    then have lt: "c < d'" and k: "k = nat ((d' - 1) - c)" and le: "c \<le> d' - 1" by simp_all
    have ne: "cs ! i \<noteq> d'" using lt by (simp add: c_def)
    have notin: "d' \<notin> set (c # rest)" using older lt by auto
    have notex: "\<not> (\<forall>x \<in> set (c # rest). d' < x)" using lt by auto
    show ?case
    proof (cases "isDue d'")
      case True
      have "spec_walk isDue (c # rest) d' = 0"
        by (subst spec_walk.simps) (simp only: notex notin True if_False if_True not_True_eq_False)
      moreover have "spec_walk_steps isDue cs i d' s' = Some s'"
        using True i ne by (subst spec_walk_steps.simps) simp
      ultimately show ?thesis by simp
    next
      case False
      have "spec_walk isDue (c # rest) d' = spec_walk isDue (c # rest) (d' - 1)"
        by (subst spec_walk.simps) (simp only: notex False if_False if_True not_False_eq_True)
      moreover have "spec_walk_steps isDue cs i d' s' = spec_walk_steps isDue cs i (d' - 1) s'"
        using False i by (subst spec_walk_steps.simps) simp
      ultimately show ?thesis using Suc.hyps(1) [OF k le] by simp
    qed
  qed
  have "c \<le> d" using Suc.prems(2) by (simp add: split)
  then show ?case by (simp add: split inner)
qed












section \<open>Properties of the completion ledger\<close>

lemma find_Some_holds: "find P xs = Some x \<Longrightarrow> P x \<and> x \<in> set xs"
  by (induction xs) (auto split: if_splits)




lemma find_replace_first:
  "find P xs = Some x \<Longrightarrow> P y \<Longrightarrow> find P (replace_first P y xs) = Some y"
  by (induction xs) (auto split: if_splits)
















lemma completeHabit_existing:
  assumes "find (todays_row (hid habit) uid now) (ledger s) = Some ex"
  shows "completeHabit now uid habit body s =
     (let updated = ex
            \<lparr>count := min (case b_count body of None \<Rightarrow> 1 | Some n \<Rightarrow> n) (targetCount habit),
             c_notes := or_string (b_notes body) (c_notes ex),
             effortLevel := or_number (b_effortLevel body) (effortLevel ex),
             satisfactionLevel := or_number (b_satisfactionLevel body) (satisfactionLevel ex),
             moodAtTime := or_mood (b_moodAtTime body) (moodAtTime ex)\<rparr>
      in if \<not> valid_modified ex updated then Some (Inl ValidationError)
         else Some (Inr
           (\<lparr>res_completion = updated, res_habit = habit, res_streak = None,
             res_pointsAwarded = None, res_levelUp = None\<rparr>,
            s\<lparr>ledger := replace_first (todays_row (hid habit) uid now) updated (ledger s)\<rparr>)))"
  using assms by (simp add: completeHabit_def Let_def)














text \<open>
  C10. When the ledger already has the caller's row for the habit and today and the
  request omits \<^verbatim>\<open>count\<close>, a successful call stores \<open>min 1 targetCount\<close> as the
  row's count, which is 1 for every target of at least 1; the count recorded before
  is replaced.
\<close>

theorem repeated_completion_without_count:
  assumes "find (todays_row (hid habit) uid now) (ledger s) = Some existing"
    and "b_count body = None"
    and "completeHabit now uid habit body s = Some (Inr (r, s'))"
  shows "find (todays_row (hid habit) uid now) (ledger s') = Some (res_completion r)
         \<and> count (res_completion r) = min 1 (targetCount habit)
         \<and> (1 \<le> targetCount habit \<longrightarrow> count (res_completion r) = 1)"
proof -
  define upd where "upd = existing
            \<lparr>count := min (case b_count body of None \<Rightarrow> 1 | Some n \<Rightarrow> n) (targetCount habit),
             c_notes := or_string (b_notes body) (c_notes existing),
             effortLevel := or_number (b_effortLevel body) (effortLevel existing),
             satisfactionLevel := or_number (b_satisfactionLevel body) (satisfactionLevel existing),
             moodAtTime := or_mood (b_moodAtTime body) (moodAtTime existing)\<rparr>"
  from assms(3) have r: "res_completion r = upd"
    and s': "ledger s' = replace_first (todays_row (hid habit) uid now) upd (ledger s)"
    unfolding completeHabit_existing [OF assms(1)] upd_def [symmetric] Let_def
    by (auto split: if_splits)
  have P: "todays_row (hid habit) uid now upd"
    using find_Some_holds [OF assms(1)] by (simp add: upd_def todays_row_def)
  have "find (todays_row (hid habit) uid now) (ledger s') = Some upd"
    unfolding s' using assms(1) P by (rule find_replace_first)
  moreover have "count upd = min 1 (targetCount habit)"
    by (simp add: upd_def assms(2))
  ultimately show ?thesis by (simp add: r)
qed

theorem repeated_completion_without_count_witness:
  "find (todays_row (hid example_habit) 7 19725) (ledger counted_store)
      = Some ((example_row 1 19725)\<lparr>count := 3\<rparr>)
   \<and> b_count empty_body = None
   \<and> 1 \<le> targetCount example_habit
   \<and> (\<exists>r s'. completeHabit 19725 7 example_habit empty_body counted_store = Some (Inr (r, s'))
         \<and> find (todays_row (hid example_habit) 7 19725) (ledger s') = Some (res_completion r)
         \<and> count (res_completion r) = 1)"
proof -
  have found: "find (todays_row (hid example_habit) 7 19725) (ledger counted_store)
      = Some ((example_row 1 19725)\<lparr>count := 3\<rparr>)"
    by (simp add: eval_defs counted_store_def)
  have nocount: "b_count empty_body = None" by (simp add: empty_body_def)
  have target: "1 \<le> targetCount example_habit" by (simp add: example_habit_def)
  have "\<exists>r s'. completeHabit 19725 7 example_habit empty_body counted_store = Some (Inr (r, s'))"
    by (simp add: eval_defs counted_store_def empty_body_def)
  then obtain r s' where
    ok: "completeHabit 19725 7 example_habit empty_body counted_store = Some (Inr (r, s'))"
    by blast
  from repeated_completion_without_count [OF found nocount ok] target
  have a: "find (todays_row (hid example_habit) 7 19725) (ledger s') = Some (res_completion r)"
    and b: "count (res_completion r) = 1"
    by simp_all
  show ?thesis
    using found nocount target ok a b by (intro conjI exI [of _ r] exI [of _ s'])
qed

section \<open>Properties of the gamification step\<close>









section \<open>Round trip and monotonicity\<close>


















section \<open>The calendar aggregation on a day with a row of a habit that is not due\<close>

text \<open>
  C6. On Tuesday 19724 the only due habit of the user is the daily habit, which has no
  row that day, while the example habit, not due on Tuesdays, has one. The route
  reports one completed habit out of one and a rate of 100, although the one due
  habit is flagged as not completed; the number of due habits with a row that day
  is 0.
\<close>

theorem calendar_counts_rows_of_habits_not_due:
  "getCalendarData 7 (Some 19724) (Some 19724) calendar_store =
     Inr [(19724, \<lparr>totalHabits = 1, completedHabits = 1, completionRate = 100,
                    habit_flags = [(2, False)]\<rparr>)]
   \<and> length (filter (\<lambda>h. isDueToday h 19724
                    \<and> (\<exists>c \<in> set (ledger calendar_store).
                          c_habit c = hid h \<and> completionDate c = 19724))
          (filter (\<lambda>h. user h = 7 \<and> isActive h) (habits calendar_store))) = 0"
  by (simp add: getCalendarData_def getCompletionsInRange_def round_percent_def
      calendar_store_def eval_defs)

section \<open>Properties of the offline queue\<close>











end
